theory Spec2Isabelle
  imports Complex_Main "HOL-Library.Word"
begin

unbundle bit_operations_syntax

section \<open>risk.h: the Throttle\<close>

text \<open>
  \<^verbatim>\<open>struct Throttle\<close> has two fields: the counter \<^verbatim>\<open>tbb::atomic<int> n\<close> and the
  bucket \<^verbatim>\<open>int tm\<close>, both 32-bit and both initialised to 0. The model is sequential:
  one call runs to its end before the next one starts.
\<close>

record Throttle =
  n :: "32 word"
  tm :: "32 word"

definition Throttle_init :: Throttle where
  "Throttle_init = \<lparr>n = 0, tm = 0\<rparr>"

text \<open>
  \<^verbatim>\<open>int operator()(int tm) const\<close>: the read. It is written with explicit state
  passing, the returned state being the one the call leaves behind.
\<close>

definition Throttle_read :: "32 word \<Rightarrow> Throttle \<Rightarrow> 32 word \<times> Throttle" where
  "Throttle_read tm' t = (if tm' \<noteq> tm t then (0, t) else (n t, t))"

text \<open>
  \<^verbatim>\<open>void Update(int tm2)\<close>. In the first branch the source assigns the member to the
  parameter (\<^verbatim>\<open>tm2 = tm;\<close>): the local \<open>tm2\<close> changes and dies with the call, the
  member \<open>tm\<close> is not written.
\<close>

definition Update :: "32 word \<Rightarrow> Throttle \<Rightarrow> Throttle" where
  "Update tm2 t =
     (if tm2 \<noteq> tm t
      then (let t1 = t\<lparr>n := 0\<rparr>; tm2' = tm t1 in t1)
      else t\<lparr>n := n t + 1\<rparr>)"

text \<open>A sequence of calls of \<open>Update\<close>, in order.\<close>

fun Updates :: "32 word list \<Rightarrow> Throttle \<Rightarrow> Throttle" where
  "Updates [] t = t"
| "Updates (s # ss) t = Updates ss (Update s t)"

section \<open>risk.h: the RiskManager\<close>

text \<open>
  \<^verbatim>\<open>class RiskManager\<close> declares \<open>Check\<close>, \<open>CheckMsgRate\<close> and \<open>Disable\<close> and holds
  one field, \<^verbatim>\<open>bool disabled_ = false\<close>. Only \<open>Disable\<close> has its body in the header.
\<close>

record RiskManager =
  disabled :: bool

definition RiskManager_init :: RiskManager where
  "RiskManager_init = \<lparr>disabled = False\<rparr>"

definition Disable :: "RiskManager \<Rightarrow> RiskManager" where
  "Disable rm = rm\<lparr>disabled := True\<rparr>"

text \<open>
  Modelled from the spec: the body of \<open>RiskManager::CheckMsgRate\<close>, which the header only
  declares. The specification says it evaluates the global and the per-security message
  rate and rejects if either bound would be exceeded. The evaluation of the rates against
  an order is the parameter \<open>rate_ok\<close>; the manager's own field is not written.
\<close>

definition CheckMsgRate ::
  "('order \<Rightarrow> bool) \<Rightarrow> 'order \<Rightarrow> RiskManager \<Rightarrow> bool \<times> RiskManager" where
  "CheckMsgRate rate_ok ord rm = (rate_ok ord, rm)"

text \<open>
  Modelled from the spec: the body of \<open>RiskManager::Check\<close>, which the header only
  declares. The specification says: the disable switch, once set, makes the check return
  true unconditionally; otherwise the configured limits are evaluated in a fixed order
  together with the message-rate check, false is returned at the first violated limit and
  true if none fires. The evaluation of the limits against an order is the parameter
  \<open>limits_ok\<close>.
\<close>

definition Check ::
  "('order \<Rightarrow> bool) \<Rightarrow> ('order \<Rightarrow> bool) \<Rightarrow> 'order \<Rightarrow> RiskManager \<Rightarrow> bool \<times> RiskManager" where
  "Check limits_ok rate_ok ord rm =
     (if disabled rm then (True, rm)
      else if \<not> limits_ok ord then (False, rm)
      else CheckMsgRate rate_ok ord rm)"

text \<open>The operations the class exposes, and a run of them in order.\<close>

datatype 'order risk_op = Call_Check 'order | Call_CheckMsgRate 'order | Call_Disable

fun risk_step ::
  "('order \<Rightarrow> bool) \<Rightarrow> ('order \<Rightarrow> bool) \<Rightarrow> 'order risk_op \<Rightarrow> RiskManager \<Rightarrow> RiskManager" where
  "risk_step limits_ok rate_ok (Call_Check ord) rm = snd (Check limits_ok rate_ok ord rm)"
| "risk_step limits_ok rate_ok (Call_CheckMsgRate ord) rm = snd (CheckMsgRate rate_ok ord rm)"
| "risk_step limits_ok rate_ok Call_Disable rm = Disable rm"

fun risk_run ::
  "('order \<Rightarrow> bool) \<Rightarrow> ('order \<Rightarrow> bool) \<Rightarrow> 'order risk_op list \<Rightarrow> RiskManager \<Rightarrow> RiskManager" where
  "risk_run limits_ok rate_ok [] rm = rm"
| "risk_run limits_ok rate_ok (x # xs) rm =
     risk_run limits_ok rate_ok xs (risk_step limits_ok rate_ok x rm)"

section \<open>market\_data.h: Trade and Quote\<close>

text \<open>
  The prices are C++ \<open>double\<close>s. A double is modelled by the value it denotes: a finite
  number, one of the two infinities, or NaN. The two signed zeros denote the same number and
  the NaN payloads are not told apart, which is the granularity at which \<open>!=\<close> observes a
  double. The comparison is the IEEE 754 one: NaN is unequal to everything, itself included.
\<close>

datatype double = NaN | Neg_inf | Finite real | Pos_inf

definition double_ne :: "double \<Rightarrow> double \<Rightarrow> bool" where
  "double_ne x y = (x = NaN \<or> y = NaN \<or> x \<noteq> y)"

text \<open>
  \<open>Qty\<close> and \<open>Volume\<close> depend on the build: without \<open>BACKTEST\<close> they are
  \<^verbatim>\<open>typedef int Qty\<close> and \<^verbatim>\<open>typedef int64_t Volume\<close>, with \<open>BACKTEST\<close> both are
  \<open>double\<close>. The structs are therefore records over the two types, and each operator is
  given once for each build: the integer comparison on the integer fields in the one, the
  IEEE comparison on all compared fields in the other.
  The field \<open>open\<close> of the source is \<open>open_price\<close> here, \<open>open\<close> being a constant of HOL.
\<close>

type_synonym Qty = "32 word"
type_synonym Volume = "64 word"
type_synonym Qty_BACKTEST = double
type_synonym Volume_BACKTEST = double

record ('qty, 'volume) Trade =
  qty :: 'qty
  open_price :: double
  high :: double
  low :: double
  close :: double
  vwap :: double
  volume :: 'volume

definition Trade_init :: "(Qty, Volume) Trade" where
  "Trade_init = \<lparr>qty = 0, open_price = Finite 0, high = Finite 0, low = Finite 0,
     close = Finite 0, vwap = Finite 0, volume = 0\<rparr>"

definition Trade_init_BACKTEST :: "(Qty_BACKTEST, Volume_BACKTEST) Trade" where
  "Trade_init_BACKTEST = \<lparr>qty = Finite 0, open_price = Finite 0, high = Finite 0,
     low = Finite 0, close = Finite 0, vwap = Finite 0, volume = Finite 0\<rparr>"

text \<open>
  \<^verbatim>\<open>bool Trade::operator!=(const Trade& b) const\<close>:
  \<^verbatim>\<open>return volume != b.volume || close != b.close || high != b.high || low != b.low;\<close>
\<close>

definition Trade_ne :: "(Qty, Volume) Trade \<Rightarrow> (Qty, Volume) Trade \<Rightarrow> bool" where
  "Trade_ne a b =
     (volume a \<noteq> volume b \<or> double_ne (close a) (close b) \<or> double_ne (high a) (high b)
      \<or> double_ne (low a) (low b))"

definition Trade_ne_BACKTEST ::
  "(Qty_BACKTEST, Volume_BACKTEST) Trade \<Rightarrow> (Qty_BACKTEST, Volume_BACKTEST) Trade \<Rightarrow> bool" where
  "Trade_ne_BACKTEST a b =
     (double_ne (volume a) (volume b) \<or> double_ne (close a) (close b)
      \<or> double_ne (high a) (high b) \<or> double_ne (low a) (low b))"

record 'qty Quote =
  ask_price :: double
  bid_price :: double
  ask_size :: 'qty
  bid_size :: 'qty

definition Quote_init :: "Qty Quote" where
  "Quote_init = \<lparr>ask_price = Finite 0, bid_price = Finite 0, ask_size = 0, bid_size = 0\<rparr>"

definition Quote_init_BACKTEST :: "Qty_BACKTEST Quote" where
  "Quote_init_BACKTEST =
     \<lparr>ask_price = Finite 0, bid_price = Finite 0, ask_size = Finite 0, bid_size = Finite 0\<rparr>"

text \<open>
  \<^verbatim>\<open>bool Quote::operator!=(const Quote& b) const\<close>:
  \<^verbatim>\<open>return ask_price != b.ask_price || ask_size != b.ask_size ||
         bid_price != b.bid_price || bid_size != b.bid_size;\<close>
\<close>

definition Quote_ne :: "Qty Quote \<Rightarrow> Qty Quote \<Rightarrow> bool" where
  "Quote_ne a b =
     (double_ne (ask_price a) (ask_price b) \<or> ask_size a \<noteq> ask_size b
      \<or> double_ne (bid_price a) (bid_price b) \<or> bid_size a \<noteq> bid_size b)"

definition Quote_ne_BACKTEST :: "Qty_BACKTEST Quote \<Rightarrow> Qty_BACKTEST Quote \<Rightarrow> bool" where
  "Quote_ne_BACKTEST a b =
     (double_ne (ask_price a) (ask_price b) \<or> double_ne (ask_size a) (ask_size b)
      \<or> double_ne (bid_price a) (bid_price b) \<or> double_ne (bid_size a) (bid_size b))"

text \<open>\<^verbatim>\<open>bool Quote::operator==(const Quote& b) const { return !(*this != b); }\<close>\<close>

definition Quote_eq :: "Qty Quote \<Rightarrow> Qty Quote \<Rightarrow> bool" where
  "Quote_eq a b = (\<not> Quote_ne a b)"

definition Quote_eq_BACKTEST :: "Qty_BACKTEST Quote \<Rightarrow> Qty_BACKTEST Quote \<Rightarrow> bool" where
  "Quote_eq_BACKTEST a b = (\<not> Quote_ne_BACKTEST a b)"

section \<open>market\_data.h: the derived cache of a record\<close>

text \<open>
  A \<^verbatim>\<open>std::any\<close> holds a value together with its type, or nothing. The types and values
  below are a small universe, enough to tell the held types apart; a pointer value is the
  type it points to and an address, \<open>None\<close> being the null pointer. \<open>Ptr_v\<close> is a \<^verbatim>\<open>T*\<close>,
  \<open>Const_ptr_v\<close> a \<^verbatim>\<open>const T*\<close>.
\<close>

datatype ctype = Int_t | Double_t | String_t | Ptr_t ctype | Const_ptr_t ctype

type_synonym pointer = "nat option"

datatype cvalue =
  Int_v "32 word" | Double_v double | String_v string
  | Ptr_v ctype pointer | Const_ptr_v ctype pointer


type_synonym any = "cvalue option"

type_synonym AnyVec = "any list"

text \<open>
  What a call can end in besides a result: the failed \<^verbatim>\<open>assert\<close>, a write through
  \<^verbatim>\<open>operator[]\<close> past the end of the vector (undefined behaviour in C++, a fault here),
  and the two exceptions \<^verbatim>\<open>std::out_of_range\<close> and \<^verbatim>\<open>std::bad_any_cast\<close>.
\<close>

datatype fault = Assertion_failed | Out_of_bounds | Out_of_range | Bad_any_cast

text \<open>
  \<^verbatim>\<open>struct MarketData\<close>. The timestamp \<open>tm\<close> of the source is \<open>md_tm\<close> here (the
  Throttle has a field \<open>tm\<close> too); \<open>depth\<close> is the array of \<open>kDepthSize = 5\<close> quotes;
  \<open>derived\<close> is the pointer \<^verbatim>\<open>AnyVec* derived = nullptr\<close>, \<open>None\<close> when null. The
  mutex is left out: the calls are modelled one at a time. The record is over the two
  build-dependent types as well; the derived cache does not depend on them.
\<close>

record ('qty, 'volume) MarketData =
  md_tm :: "64 word"
  trade :: "('qty, 'volume) Trade"
  depth :: "'qty Quote list"
  derived :: "AnyVec option"

definition kDepthSize :: nat where
  "kDepthSize = 5"

definition MarketData_init :: "(Qty, Volume) MarketData" where
  "MarketData_init =
     \<lparr>md_tm = 0, trade = Trade_init, depth = replicate kDepthSize Quote_init, derived = None\<rparr>"

text \<open>
  \<^verbatim>\<open>std::vector::resize(k)\<close>: the vector has exactly \<open>k\<close> elements afterwards, the new
  ones empty.
\<close>

definition resize :: "AnyVec \<Rightarrow> nat \<Rightarrow> AnyVec" where
  "resize vec k = take k vec @ replicate (k - length vec) None"

text \<open>\<^verbatim>\<open>(*derived)[id] = value\<close>: unchecked in C++; the write past the end is the fault.\<close>

definition write_at :: "AnyVec \<Rightarrow> nat \<Rightarrow> any \<Rightarrow> fault + AnyVec" where
  "write_at vec i v = (if i < length vec then Inr (vec[i := v]) else Inl Out_of_bounds)"

text \<open>\<^verbatim>\<open>derived->at(id)\<close>: checked, throws \<^verbatim>\<open>std::out_of_range\<close>.\<close>

definition at_vec :: "AnyVec \<Rightarrow> nat \<Rightarrow> fault + any" where
  "at_vec vec i = (if i < length vec then Inr (vec ! i) else Inl Out_of_range)"

text \<open>
  \<^verbatim>\<open>void SetDerived(std::any value, size_t id)\<close>:
  \<^verbatim>\<open>assert(id < 16);
  if (!derived) derived = new AnyVec;
  if (derived->size() <= id) derived->resize(id);
  (*derived)[id] = value;\<close>
\<close>

definition SetDerived ::
  "any \<Rightarrow> nat \<Rightarrow> ('qty, 'volume) MarketData \<Rightarrow> fault + ('qty, 'volume) MarketData" where
  "SetDerived v i md =
     (if \<not> i < 16 then Inl Assertion_failed
      else
        let vec0 = (case derived md of None \<Rightarrow> [] | Some vec \<Rightarrow> vec);
            vec1 = (if length vec0 \<le> i then resize vec0 i else vec0)
        in case write_at vec1 i v of
             Inl e \<Rightarrow> Inl e
           | Inr vec2 \<Rightarrow> Inr (md\<lparr>derived := Some vec2\<rparr>))"

text \<open>
  \<^verbatim>\<open>std::any_cast<const T*>(a)\<close> on a \<^verbatim>\<open>const std::any&\<close>: the held value must be of
  type \<^verbatim>\<open>const T*\<close> exactly, and is returned; anything else, an empty \<open>any\<close> included,
  throws \<^verbatim>\<open>std::bad_any_cast\<close>.
\<close>

definition any_cast_const_ptr :: "ctype \<Rightarrow> any \<Rightarrow> fault + pointer" where
  "any_cast_const_ptr T a =
     (case a of
        None \<Rightarrow> Inl Bad_any_cast
      | Some v \<Rightarrow> (case v of
            Const_ptr_v U p \<Rightarrow> if U = T then Inr p else Inl Bad_any_cast
          | _ \<Rightarrow> Inl Bad_any_cast))"

text \<open>
  \<^verbatim>\<open>template <typename T> const T* GetDerived(size_t id) const\<close>:
  \<^verbatim>\<open>if (!derived) return {};
  if (id >= derived->size()) return {};
  try { return std::any_cast<const T*>(derived->at(id)); }
  catch (const std::bad_any_cast& e) { return {}; }\<close>
  The handler catches \<^verbatim>\<open>bad_any_cast\<close> only; any other exception leaves the function.
\<close>

definition GetDerived ::
  "ctype \<Rightarrow> nat \<Rightarrow> ('qty, 'volume) MarketData \<Rightarrow> fault + pointer" where
  "GetDerived T i md =
     (case derived md of
        None \<Rightarrow> Inr None
      | Some vec \<Rightarrow>
          if i \<ge> length vec then Inr None
          else (case at_vec vec i of
                  Inl e \<Rightarrow> Inl e
                | Inr a \<Rightarrow> (case any_cast_const_ptr T a of
                      Inr p \<Rightarrow> Inr p
                    | Inl Bad_any_cast \<Rightarrow> Inr None
                    | Inl e \<Rightarrow> Inl e)))"

section \<open>market\_data.h: the source identifier\<close>

text \<open>
  A C \<open>char\<close> is a byte, and \<open>IdType\<close> is \<^verbatim>\<open>uint32_t\<close>. A \<^verbatim>\<open>const char*\<close> argument is
  \<open>None\<close> when null and otherwise the characters before the terminating NUL. In
  \<^verbatim>\<open>(GetId(src + 1) << 8) + *src\<close> the character is promoted to \<open>int\<close> and then converted
  to \<^verbatim>\<open>uint32_t\<close>; with the signed \<open>char\<close> of the x86-64 ABI that is a sign extension.
\<close>

type_synonym cchar = "8 word"
type_synonym IdType = "32 word"

fun GetId :: "cchar list option \<Rightarrow> IdType" where
  "GetId None = 0"
| "GetId (Some []) = 0"
| "GetId (Some (c # cs)) =
     (if length (c # cs) = 1 then scast c else push_bit 8 (GetId (Some cs)) + scast c)"

text \<open>
  \<^verbatim>\<open>static const char* GetStr(IdType id)\<close> writes into the buffer
  \<^verbatim>\<open>static thread_local char str[5]\<close>, which keeps what an earlier call left in it.
  The loop \<^verbatim>\<open>for (i = 0u; i < 4 && id; ++i) { str[i] = id & 0xFF; id >>= 8; }\<close>
  (the parameter \<open>id\<close> is \<open>id'\<close> here, \<open>id\<close> being a constant of HOL):
\<close>

function GetStr_loop :: "nat \<Rightarrow> IdType \<Rightarrow> cchar list \<Rightarrow> nat \<times> cchar list" where
  "GetStr_loop i id' str =
     (if i < 4 \<and> id' \<noteq> 0
      then GetStr_loop (i + 1) (drop_bit 8 id') (str[i := ucast (id' AND 0xFF)])
      else (i, str))"
  by pat_completeness auto
termination
  by (relation "measure (\<lambda>(i, id', str). 4 - i)") auto

text \<open>After the loop \<^verbatim>\<open>str[i] = 0\<close>; the result is the buffer.\<close>

definition GetStr :: "IdType \<Rightarrow> cchar list \<Rightarrow> cchar list" where
  "GetStr id' str = (case GetStr_loop 0 id' str of (i, str') \<Rightarrow> str'[i := 0])"

text \<open>The string a \<^verbatim>\<open>const char*\<close> to the start of a buffer denotes: up to the first NUL.\<close>

definition c_str :: "cchar list \<Rightarrow> cchar list" where
  "c_str buf = takeWhile (\<lambda>c. c \<noteq> 0) buf"

text \<open>A name of ASCII characters, as a C string holds it: no NUL, every byte below 128.\<close>

definition ascii_name :: "cchar list \<Rightarrow> bool" where
  "ascii_name name = list_all (\<lambda>c. c \<noteq> 0 \<and> c < 0x80) name"

section \<open>The Throttle: theorems\<close>

lemma Update_keeps_bucket: "tm (Update s t) = tm t"
  by (simp add: Update_def Let_def)

lemma Updates_keeps_bucket: "tm (Updates ss t) = tm t"
  by (induction ss arbitrary: t) (simp_all add: Update_keeps_bucket)

lemma Update_other_second: "s \<noteq> tm t \<Longrightarrow> Update s t = t\<lparr>n := 0\<rparr>"
  by (simp add: Update_def Let_def)

lemma Update_same_second: "Update (tm t) t = t\<lparr>n := n t + 1\<rparr>"
  by (simp add: Update_def)

text \<open>
  C8. For every Throttle state and every second, the read returns the live count when the
  second is the stored bucket and zero otherwise, and it leaves the state as it was.
\<close>

theorem Throttle_read_live_or_zero:
  "fst (Throttle_read s t) = (if s = tm t then n t else 0) \<and> snd (Throttle_read s t) = t"
  by (simp add: Throttle_read_def)

theorem Throttle_read_live_or_zero_witness:
  "fst (Throttle_read 100 \<lparr>n = 7, tm = 100\<rparr>) = 7
   \<and> fst (Throttle_read 101 \<lparr>n = 7, tm = 100\<rparr>) = 0
   \<and> snd (Throttle_read 101 \<lparr>n = 7, tm = 100\<rparr>) = \<lparr>n = 7, tm = 100\<rparr>"
  using Throttle_read_live_or_zero [of 100 "\<lparr>n = 7, tm = 100\<rparr>"]
    Throttle_read_live_or_zero [of 101 "\<lparr>n = 7, tm = 100\<rparr>"]
  by simp

lemma Updates_same_second:
  "s = tm t \<Longrightarrow> Updates (replicate k s) t = t\<lparr>n := n t + of_nat k\<rparr>"
proof (induction k arbitrary: t)
  case 0
  then show ?case by simp
next
  case (Suc k)
  have "Update s t = t\<lparr>n := n t + 1\<rparr>"
    using Suc.prems by (simp add: Update_same_second)
  moreover have "s = tm (t\<lparr>n := n t + 1\<rparr>)"
    using Suc.prems by simp
  ultimately show ?case
    using Suc.IH [of "t\<lparr>n := n t + 1\<rparr>"] by (simp add: add.assoc add.commute)
qed

lemma Updates_from_init_read_zero:
  "s \<noteq> 0 \<Longrightarrow> fst (Throttle_read s (Updates ss Throttle_init)) = 0"
proof -
  assume "s \<noteq> 0"
  moreover have "tm (Updates ss Throttle_init) = 0"
    by (simp add: Updates_keeps_bucket Throttle_init_def)
  ultimately show ?thesis by (simp add: Throttle_read_def)
qed

text \<open>
  C1. From the state the constructor leaves (counter 0, bucket 0), after the updates at
  seconds 100, 100, 100 the counter read at second 100 is 0, and after the further updates
  at 101, 101 the counter read at second 101 is 0: the first update already leaves the
  bucket at 0, since the first branch of \<open>Update\<close> assigns the member to the parameter
  (\<^verbatim>\<open>tm2 = tm;\<close>) and never writes the member, and so does every later one.
\<close>

theorem Throttle_updates_from_init:
  "fst (Throttle_read 100 (Updates [100, 100, 100] Throttle_init)) = 0
   \<and> fst (Throttle_read 101 (Updates [100, 100, 100, 101, 101] Throttle_init)) = 0
   \<and> tm (Update 100 Throttle_init) = 0
   \<and> tm (Updates [100, 100, 100, 101, 101] Throttle_init) = 0"
  by (simp add: Update_def Throttle_read_def Throttle_init_def)

section \<open>The RiskManager: theorems\<close>

lemma risk_step_keeps_disabled:
  "disabled rm \<Longrightarrow> disabled (risk_step limits_ok rate_ok x rm)"
  by (cases x) (simp_all add: Check_def CheckMsgRate_def Disable_def)

lemma risk_run_keeps_disabled:
  "disabled rm \<Longrightarrow> disabled (risk_run limits_ok rate_ok xs rm)"
  by (induction xs arbitrary: rm) (simp_all add: risk_step_keeps_disabled)

text \<open>
  C5. Once \<open>Disable\<close> has been called, whatever exposed operations follow, the manager is
  still disabled and \<open>Check\<close> returns true for every order, whatever the limits and the
  rates say about it.
\<close>

theorem Check_true_once_disabled:
  "disabled (risk_run limits_ok rate_ok xs (Disable rm))
   \<and> fst (Check limits_ok rate_ok ord (risk_run limits_ok rate_ok xs (Disable rm))) = True"
proof -
  have "disabled (risk_run limits_ok rate_ok xs (Disable rm))"
    by (rule risk_run_keeps_disabled) (simp add: Disable_def)
  then show ?thesis by (simp add: Check_def)
qed

text \<open>
  An order of quantity 1000 against a limit of 10: rejected by the enabled manager, accepted
  after \<open>Disable\<close> and two further calls.
\<close>

theorem Check_true_once_disabled_witness:
  "disabled (risk_run (\<lambda>q. q \<le> (10::nat)) (\<lambda>q. False)
       [Call_Check 50, Call_CheckMsgRate 7] (Disable RiskManager_init))
   \<and> fst (Check (\<lambda>q. q \<le> (10::nat)) (\<lambda>q. False) 1000
        (risk_run (\<lambda>q. q \<le> (10::nat)) (\<lambda>q. False)
           [Call_Check 50, Call_CheckMsgRate 7] (Disable RiskManager_init))) = True
   \<and> fst (Check (\<lambda>q. q \<le> (10::nat)) (\<lambda>q. False) 1000 RiskManager_init) = False"
  using Check_true_once_disabled [of "\<lambda>q. q \<le> (10::nat)" "\<lambda>q. False"
      "[Call_Check 50, Call_CheckMsgRate 7]" RiskManager_init 1000]
  by (simp add: Check_def RiskManager_init_def)

section \<open>Trade and Quote: theorems\<close>

lemma double_ne_no_NaN: "x \<noteq> NaN \<Longrightarrow> y \<noteq> NaN \<Longrightarrow> double_ne x y = (x \<noteq> y)"
  by (simp add: double_ne_def)

lemma double_ne_NaN: "double_ne NaN y" "double_ne x NaN"
  by (simp_all add: double_ne_def)

text \<open>
  C6, as the source has it, in both builds. For two trades in which none of the compared
  double fields is NaN (close, high and low, and with \<open>BACKTEST\<close> the volume too), the
  inequality holds iff they differ in at least one of volume, close, high and low. For all
  trades, quantity, open and vwap never affect the comparison. A NaN in a compared double
  field of either trade makes the inequality hold.
\<close>

theorem Trade_ne_fields:
  "(close a \<noteq> NaN \<and> close b \<noteq> NaN \<and> high a \<noteq> NaN \<and> high b \<noteq> NaN
      \<and> low a \<noteq> NaN \<and> low b \<noteq> NaN
      \<longrightarrow> Trade_ne a b
          = (volume a \<noteq> volume b \<or> close a \<noteq> close b \<or> high a \<noteq> high b \<or> low a \<noteq> low b))
   \<and> Trade_ne (a\<lparr>qty := q1, open_price := o1, vwap := w1\<rparr>)
        (b\<lparr>qty := q2, open_price := o2, vwap := w2\<rparr>) = Trade_ne a b
   \<and> (close a = NaN \<or> high a = NaN \<or> low a = NaN \<or> close b = NaN \<or> high b = NaN
        \<or> low b = NaN \<longrightarrow> Trade_ne a b)
   \<and> (volume c \<noteq> NaN \<and> volume d \<noteq> NaN \<and> close c \<noteq> NaN \<and> close d \<noteq> NaN
      \<and> high c \<noteq> NaN \<and> high d \<noteq> NaN \<and> low c \<noteq> NaN \<and> low d \<noteq> NaN
      \<longrightarrow> Trade_ne_BACKTEST c d
          = (volume c \<noteq> volume d \<or> close c \<noteq> close d \<or> high c \<noteq> high d \<or> low c \<noteq> low d))
   \<and> Trade_ne_BACKTEST (c\<lparr>qty := q3, open_price := o3, vwap := w3\<rparr>)
        (d\<lparr>qty := q4, open_price := o4, vwap := w4\<rparr>) = Trade_ne_BACKTEST c d
   \<and> (volume c = NaN \<or> close c = NaN \<or> high c = NaN \<or> low c = NaN
        \<or> volume d = NaN \<or> close d = NaN \<or> high d = NaN \<or> low d = NaN
        \<longrightarrow> Trade_ne_BACKTEST c d)"
proof -
  have 1: "close a \<noteq> NaN \<and> close b \<noteq> NaN \<and> high a \<noteq> NaN \<and> high b \<noteq> NaN
      \<and> low a \<noteq> NaN \<and> low b \<noteq> NaN
      \<longrightarrow> Trade_ne a b
          = (volume a \<noteq> volume b \<or> close a \<noteq> close b \<or> high a \<noteq> high b \<or> low a \<noteq> low b)"
    by (simp add: Trade_ne_def double_ne_no_NaN)
  have 2: "Trade_ne (a\<lparr>qty := q1, open_price := o1, vwap := w1\<rparr>)
        (b\<lparr>qty := q2, open_price := o2, vwap := w2\<rparr>) = Trade_ne a b"
    by (simp add: Trade_ne_def)
  have 3: "close a = NaN \<or> high a = NaN \<or> low a = NaN \<or> close b = NaN \<or> high b = NaN
        \<or> low b = NaN \<longrightarrow> Trade_ne a b"
    by (auto simp add: Trade_ne_def double_ne_NaN)
  have 4: "volume c \<noteq> NaN \<and> volume d \<noteq> NaN \<and> close c \<noteq> NaN \<and> close d \<noteq> NaN
      \<and> high c \<noteq> NaN \<and> high d \<noteq> NaN \<and> low c \<noteq> NaN \<and> low d \<noteq> NaN
      \<longrightarrow> Trade_ne_BACKTEST c d
          = (volume c \<noteq> volume d \<or> close c \<noteq> close d \<or> high c \<noteq> high d \<or> low c \<noteq> low d)"
    by (simp add: Trade_ne_BACKTEST_def double_ne_no_NaN)
  have 5: "Trade_ne_BACKTEST (c\<lparr>qty := q3, open_price := o3, vwap := w3\<rparr>)
        (d\<lparr>qty := q4, open_price := o4, vwap := w4\<rparr>) = Trade_ne_BACKTEST c d"
    by (simp add: Trade_ne_BACKTEST_def)
  have 6: "volume c = NaN \<or> close c = NaN \<or> high c = NaN \<or> low c = NaN
        \<or> volume d = NaN \<or> close d = NaN \<or> high d = NaN \<or> low d = NaN
        \<longrightarrow> Trade_ne_BACKTEST c d"
    by (auto simp add: Trade_ne_BACKTEST_def double_ne_NaN)
  from 1 2 3 4 5 6 show ?thesis by (intro conjI)
qed

text \<open>
  Without \<open>BACKTEST\<close>: a changed close is seen, changed quantity, open and vwap are not, a
  NaN low compares as changed against itself. With \<open>BACKTEST\<close>: a changed volume is seen,
  a changed quantity is not, a NaN volume compares as changed against itself.
\<close>

theorem Trade_ne_fields_witness:
  "Trade_ne (Trade_init\<lparr>close := Finite 2\<rparr>) Trade_init
   \<and> \<not> Trade_ne (Trade_init\<lparr>qty := 3, open_price := Finite 1, vwap := Finite 4\<rparr>) Trade_init
   \<and> Trade_ne (Trade_init\<lparr>low := NaN\<rparr>) (Trade_init\<lparr>low := NaN\<rparr>)
   \<and> Trade_ne_BACKTEST (Trade_init_BACKTEST\<lparr>volume := Finite 9\<rparr>) Trade_init_BACKTEST
   \<and> \<not> Trade_ne_BACKTEST (Trade_init_BACKTEST\<lparr>qty := Finite 3\<rparr>) Trade_init_BACKTEST
   \<and> Trade_ne_BACKTEST (Trade_init_BACKTEST\<lparr>volume := NaN\<rparr>)
        (Trade_init_BACKTEST\<lparr>volume := NaN\<rparr>)"
  using
    Trade_ne_fields [where a = "Trade_init\<lparr>close := Finite 2\<rparr>" and b = Trade_init
      and c = "Trade_init_BACKTEST\<lparr>volume := Finite 9\<rparr>" and d = Trade_init_BACKTEST]
    Trade_ne_fields [where a = Trade_init and b = Trade_init and ?q1.0 = 3
      and ?o1.0 = "Finite 1" and ?w1.0 = "Finite 4" and ?q2.0 = 0 and ?o2.0 = "Finite 0"
      and ?w2.0 = "Finite 0" and c = Trade_init_BACKTEST and d = Trade_init_BACKTEST
      and ?q3.0 = "Finite 3" and ?o3.0 = "Finite 0" and ?w3.0 = "Finite 0"
      and ?q4.0 = "Finite 0" and ?o4.0 = "Finite 0" and ?w4.0 = "Finite 0"]
    Trade_ne_fields [where a = "Trade_init\<lparr>low := NaN\<rparr>" and b = "Trade_init\<lparr>low := NaN\<rparr>"
      and c = "Trade_init_BACKTEST\<lparr>volume := NaN\<rparr>"
      and d = "Trade_init_BACKTEST\<lparr>volume := NaN\<rparr>"]
  by (simp add: Trade_init_def Trade_init_BACKTEST_def)

text \<open>
  C6 as the specification words it fails: two trades with a NaN close that differ only in
  the open compare as changed, although volume, close, high and low are the same in both.
\<close>

theorem Trade_ne_NaN_counterexample:
  "\<not> (Trade_ne (Trade_init\<lparr>close := NaN\<rparr>) (Trade_init\<lparr>close := NaN, open_price := Finite 1\<rparr>)
      \<longleftrightarrow> (volume (Trade_init\<lparr>close := NaN\<rparr>)
             \<noteq> volume (Trade_init\<lparr>close := NaN, open_price := Finite 1\<rparr>)
          \<or> close (Trade_init\<lparr>close := NaN\<rparr>)
             \<noteq> close (Trade_init\<lparr>close := NaN, open_price := Finite 1\<rparr>)
          \<or> high (Trade_init\<lparr>close := NaN\<rparr>)
             \<noteq> high (Trade_init\<lparr>close := NaN, open_price := Finite 1\<rparr>)
          \<or> low (Trade_init\<lparr>close := NaN\<rparr>)
             \<noteq> low (Trade_init\<lparr>close := NaN, open_price := Finite 1\<rparr>)))"
  by (simp add: Trade_ne_def double_ne_def Trade_init_def)

text \<open>
  C7, as the source has it, in both builds. Quote equality is the negation of Quote
  inequality. For two quotes in which none of the compared double fields is NaN (the ask
  and bid prices, and with \<open>BACKTEST\<close> the ask and bid sizes too), the inequality holds iff
  they differ in at least one of ask price, bid price, ask size and bid size. A NaN in a
  compared double field of either quote makes the inequality hold.
\<close>

theorem Quote_eq_ne_fields:
  "Quote_eq a b = (\<not> Quote_ne a b)
   \<and> (ask_price a \<noteq> NaN \<and> ask_price b \<noteq> NaN \<and> bid_price a \<noteq> NaN \<and> bid_price b \<noteq> NaN
      \<longrightarrow> Quote_ne a b
          = (ask_price a \<noteq> ask_price b \<or> bid_price a \<noteq> bid_price b
             \<or> ask_size a \<noteq> ask_size b \<or> bid_size a \<noteq> bid_size b))
   \<and> (ask_price a = NaN \<or> bid_price a = NaN \<or> ask_price b = NaN \<or> bid_price b = NaN
      \<longrightarrow> Quote_ne a b)
   \<and> Quote_eq_BACKTEST c d = (\<not> Quote_ne_BACKTEST c d)
   \<and> (ask_price c \<noteq> NaN \<and> ask_price d \<noteq> NaN \<and> bid_price c \<noteq> NaN \<and> bid_price d \<noteq> NaN
      \<and> ask_size c \<noteq> NaN \<and> ask_size d \<noteq> NaN \<and> bid_size c \<noteq> NaN \<and> bid_size d \<noteq> NaN
      \<longrightarrow> Quote_ne_BACKTEST c d
          = (ask_price c \<noteq> ask_price d \<or> bid_price c \<noteq> bid_price d
             \<or> ask_size c \<noteq> ask_size d \<or> bid_size c \<noteq> bid_size d))
   \<and> (ask_price c = NaN \<or> bid_price c = NaN \<or> ask_size c = NaN \<or> bid_size c = NaN
        \<or> ask_price d = NaN \<or> bid_price d = NaN \<or> ask_size d = NaN \<or> bid_size d = NaN
      \<longrightarrow> Quote_ne_BACKTEST c d)"
proof -
  have 1: "Quote_eq a b = (\<not> Quote_ne a b)"
    by (simp add: Quote_eq_def)
  have 2: "ask_price a \<noteq> NaN \<and> ask_price b \<noteq> NaN \<and> bid_price a \<noteq> NaN \<and> bid_price b \<noteq> NaN
      \<longrightarrow> Quote_ne a b
          = (ask_price a \<noteq> ask_price b \<or> bid_price a \<noteq> bid_price b
             \<or> ask_size a \<noteq> ask_size b \<or> bid_size a \<noteq> bid_size b)"
    by (auto simp add: Quote_ne_def double_ne_no_NaN)
  have 3: "ask_price a = NaN \<or> bid_price a = NaN \<or> ask_price b = NaN \<or> bid_price b = NaN
      \<longrightarrow> Quote_ne a b"
    by (auto simp add: Quote_ne_def double_ne_NaN)
  have 4: "Quote_eq_BACKTEST c d = (\<not> Quote_ne_BACKTEST c d)"
    by (simp add: Quote_eq_BACKTEST_def)
  have 5: "ask_price c \<noteq> NaN \<and> ask_price d \<noteq> NaN \<and> bid_price c \<noteq> NaN \<and> bid_price d \<noteq> NaN
      \<and> ask_size c \<noteq> NaN \<and> ask_size d \<noteq> NaN \<and> bid_size c \<noteq> NaN \<and> bid_size d \<noteq> NaN
      \<longrightarrow> Quote_ne_BACKTEST c d
          = (ask_price c \<noteq> ask_price d \<or> bid_price c \<noteq> bid_price d
             \<or> ask_size c \<noteq> ask_size d \<or> bid_size c \<noteq> bid_size d)"
    by (auto simp add: Quote_ne_BACKTEST_def double_ne_no_NaN)
  have 6: "ask_price c = NaN \<or> bid_price c = NaN \<or> ask_size c = NaN \<or> bid_size c = NaN
        \<or> ask_price d = NaN \<or> bid_price d = NaN \<or> ask_size d = NaN \<or> bid_size d = NaN
      \<longrightarrow> Quote_ne_BACKTEST c d"
    by (auto simp add: Quote_ne_BACKTEST_def double_ne_NaN)
  from 1 2 3 4 5 6 show ?thesis by (intro conjI)
qed

theorem Quote_eq_ne_fields_witness:
  "Quote_ne (Quote_init\<lparr>bid_size := 100\<rparr>) Quote_init
   \<and> \<not> Quote_eq (Quote_init\<lparr>bid_size := 100\<rparr>) Quote_init
   \<and> Quote_eq Quote_init Quote_init
   \<and> Quote_ne (Quote_init\<lparr>bid_price := NaN\<rparr>) Quote_init
   \<and> Quote_ne_BACKTEST (Quote_init_BACKTEST\<lparr>ask_size := Finite 100\<rparr>) Quote_init_BACKTEST
   \<and> Quote_eq_BACKTEST Quote_init_BACKTEST Quote_init_BACKTEST
   \<and> Quote_ne_BACKTEST (Quote_init_BACKTEST\<lparr>ask_size := NaN\<rparr>)
        (Quote_init_BACKTEST\<lparr>ask_size := NaN\<rparr>)"
  using
    Quote_eq_ne_fields [of "Quote_init\<lparr>bid_size := 100\<rparr>" Quote_init
      "Quote_init_BACKTEST\<lparr>ask_size := Finite 100\<rparr>" Quote_init_BACKTEST]
    Quote_eq_ne_fields [of Quote_init Quote_init Quote_init_BACKTEST Quote_init_BACKTEST]
    Quote_eq_ne_fields [of "Quote_init\<lparr>bid_price := NaN\<rparr>" Quote_init
      "Quote_init_BACKTEST\<lparr>ask_size := NaN\<rparr>" "Quote_init_BACKTEST\<lparr>ask_size := NaN\<rparr>"]
  by (simp add: Quote_init_def Quote_init_BACKTEST_def)

text \<open>
  C7 as the specification words it fails: a quote with a NaN ask price is unequal to itself,
  although it differs from itself in no field.
\<close>

theorem Quote_ne_NaN_counterexample:
  "\<not> (Quote_ne (Quote_init\<lparr>ask_price := NaN\<rparr>) (Quote_init\<lparr>ask_price := NaN\<rparr>)
      \<longleftrightarrow> (ask_price (Quote_init\<lparr>ask_price := NaN\<rparr>) \<noteq> ask_price (Quote_init\<lparr>ask_price := NaN\<rparr>)
          \<or> bid_price (Quote_init\<lparr>ask_price := NaN\<rparr>) \<noteq> bid_price (Quote_init\<lparr>ask_price := NaN\<rparr>)
          \<or> ask_size (Quote_init\<lparr>ask_price := NaN\<rparr>) \<noteq> ask_size (Quote_init\<lparr>ask_price := NaN\<rparr>)
          \<or> bid_size (Quote_init\<lparr>ask_price := NaN\<rparr>) \<noteq> bid_size (Quote_init\<lparr>ask_price := NaN\<rparr>)))"
  by (simp add: Quote_ne_def double_ne_def)

section \<open>The derived cache: theorems\<close>

lemma GetDerived_present:
  "derived md = Some vec \<Longrightarrow> i < length vec \<Longrightarrow> vec ! i = Some (Const_ptr_v T p) \<Longrightarrow>
   GetDerived T i md = Inr p"
  by (simp add: GetDerived_def at_vec_def any_cast_const_ptr_def)






text \<open>
  \<open>SetDerived\<close> resizes the vector to \<open>id\<close> elements, not to \<open>id + 1\<close>. It succeeds
  exactly when the vector already has more than \<open>id\<close> elements; on a record without a
  cache, and on a vector of at most \<open>id\<close> elements, the write is one past the end.
\<close>

lemma SetDerived_ok_iff:
  "(\<exists>md'. SetDerived v i md = Inr md')
   \<longleftrightarrow> i < 16 \<and> (\<exists>vec. derived md = Some vec \<and> i < length vec)"
  by (auto simp add: SetDerived_def resize_def write_at_def Let_def split: option.splits)

lemma SetDerived_past_the_end:
  "i < 16 \<Longrightarrow> (case derived md of None \<Rightarrow> True | Some vec \<Rightarrow> length vec \<le> i) \<Longrightarrow>
   SetDerived v i md = Inl Out_of_bounds"
  by (auto simp add: SetDerived_def resize_def write_at_def Let_def split: option.splits)

lemma SetDerived_then_GetDerived:
  "SetDerived (Some (Const_ptr_v T p)) i md = Inr md' \<Longrightarrow> GetDerived T i md' = Inr p"
  by (auto simp add: SetDerived_def resize_def write_at_def Let_def GetDerived_def at_vec_def
      any_cast_const_ptr_def split: option.splits if_splits)

text \<open>
  C4. On a freshly constructed record the write of \<open>SetDerived\<close> is out of bounds, at slot 0
  and at slot 5: after the allocation and the resize the vector has exactly as many elements
  as the slot number, not more.
\<close>

theorem SetDerived_write_out_of_bounds:
  "SetDerived (Some (Int_v 7)) 0 MarketData_init = Inl Out_of_bounds
   \<and> SetDerived (Some (Int_v 7)) 5 MarketData_init = Inl Out_of_bounds
   \<and> length (resize [] 0) = 0 \<and> length (resize [] 5) = 5"
  by (simp add: SetDerived_def resize_def write_at_def MarketData_init_def)

text \<open>
  C2. On a freshly constructed record, \<open>SetDerived\<close> of a \<^verbatim>\<open>const int*\<close> at slot 3 ends in
  the out-of-bounds write, so no record results on which \<open>GetDerived\<close> could return the
  value; on the record as the resize leaves it (three empty elements) \<open>GetDerived\<close> at
  slot 3 returns the null pointer.
\<close>

theorem SetDerived_GetDerived_fresh_record:
  "SetDerived (Some (Const_ptr_v Int_t (Some 4096))) 3 MarketData_init = Inl Out_of_bounds
   \<and> GetDerived Int_t 3 (MarketData_init\<lparr>derived := Some (resize [] 3)\<rparr>) = Inr None"
  by (simp add: SetDerived_def GetDerived_def resize_def write_at_def MarketData_init_def)

section \<open>The source identifier: theorems\<close>

subsection \<open>Bytes in a 32-bit word\<close>

lemma ascii_bit7: "c < 0x80 \<Longrightarrow> \<not> bit (c::8 word) 7"
proof -
  assume "c < 0x80"
  then have "unat c < 128" by (simp add: word_less_nat_alt)
  then have "\<not> bit (unat c) 7" by (simp add: bit_iff_odd)
  then show ?thesis by (simp add: bit_unsigned_iff)
qed

lemma scast_ascii: "c < 0x80 \<Longrightarrow> (scast (c::8 word) :: 32 word) = ucast c"
proof (rule bit_eqI)
  fix k
  assume a: "c < 0x80"
  have "k \<ge> 7 \<Longrightarrow> \<not> bit c k"
    using ascii_bit7 [OF a] bit_imp_le_length [of c k] by (cases "k = 7") auto
  then show "bit (scast c :: 32 word) k = bit (ucast c :: 32 word) k"
    using ascii_bit7 [OF a]
    by (auto simp add: bit_simps min_def)
qed

lemma byte_add_or: "push_bit 8 (x::32 word) + ucast (c::8 word) = push_bit 8 x OR ucast c"
  by (rule disjunctive_add) (auto simp add: bit_simps dest: bit_imp_le_length)

lemma low_byte: "ucast ((push_bit 8 (x::32 word) + ucast (c::8 word)) AND 0xFF) = c"
proof -
  have m: "(0xFF :: 32 word) = mask 8" by (simp add: mask_eq_exp_minus_1)
  show ?thesis
    unfolding byte_add_or m
    by (rule bit_eqI) (auto simp add: bit_simps dest: bit_imp_le_length)
qed

lemma high_part: "drop_bit 8 (push_bit 8 (x::32 word) + ucast (c::8 word)) = take_bit 24 x"
  unfolding byte_add_or
  by (rule bit_eqI) (auto simp add: bit_simps dest: bit_imp_le_length)

lemma byte_nonzero: "c \<noteq> 0 \<Longrightarrow> push_bit 8 (x::32 word) + ucast (c::8 word) \<noteq> 0"
proof
  assume c: "c \<noteq> 0" and z: "push_bit 8 x + ucast c = 0"
  have "ucast ((push_bit 8 x + ucast c) AND 0xFF) = c" by (rule low_byte)
  with z have "c = 0" by simp
  with c show False by simp
qed

lemma push_bit_32_word: "push_bit 32 (x :: 32 word) = 0"
  by (rule bit_eqI) (auto simp add: bit_simps)

subsection \<open>Encoding and decoding\<close>

lemma ascii_name_Cons: "ascii_name (c # cs) = (c \<noteq> 0 \<and> c < 0x80 \<and> ascii_name cs)"
  by (simp add: ascii_name_def)

lemma GetId_Cons:
  "c < 0x80 \<Longrightarrow> GetId (Some (c # cs)) = push_bit 8 (GetId (Some cs)) + ucast c"
  by (cases cs) (simp_all add: scast_ascii)

lemma GetId_bits:
  "ascii_name name \<Longrightarrow> bit (GetId (Some name)) m \<Longrightarrow> m < 8 * length name"
proof (induction name arbitrary: m)
  case Nil
  then show ?case by simp
next
  case (Cons c cs)
  from Cons.prems(1) have c: "c < 0x80" and cs: "ascii_name cs"
    by (simp_all add: ascii_name_Cons)
  from Cons.prems(2) have "bit (push_bit 8 (GetId (Some cs)) OR (ucast c :: 32 word)) m"
    by (simp only: GetId_Cons [OF c] byte_add_or)
  then consider "8 \<le> m" "bit (GetId (Some cs)) (m - 8)" | "bit c m"
    by (auto simp add: bit_simps)
  then show ?case
  proof cases
    case 1
    with Cons.IH [OF cs, of "m - 8"] show ?thesis by simp
  next
    case 2
    then have "m < 8" using bit_imp_le_length [of c m] by simp
    then show ?thesis by simp
  qed
qed

lemma GetId_take_bit:
  assumes "ascii_name name" "length name \<le> 3"
  shows "take_bit 24 (GetId (Some name)) = GetId (Some name)"
proof (rule bit_eqI)
  fix k
  show "bit (take_bit 24 (GetId (Some name))) k = bit (GetId (Some name)) k"
    using GetId_bits [OF assms(1), of k] assms(2) by (auto simp add: bit_simps)
qed

lemma GetStr_loop_GetId:
  "ascii_name name \<Longrightarrow> i + length name \<le> 4 \<Longrightarrow> length buf = 5 \<Longrightarrow>
   GetStr_loop i (GetId (Some name)) buf
     = (i + length name, take i buf @ name @ drop (i + length name) buf)"
proof (induction name arbitrary: i buf)
  case Nil
  then show ?case by simp
next
  case (Cons c cs)
  from Cons.prems(1) have c: "c < 0x80" and c0: "c \<noteq> 0" and cs: "ascii_name cs"
    by (simp_all add: ascii_name_Cons)
  let ?g = "GetId (Some cs)"
  have e: "GetId (Some (c # cs)) = push_bit 8 ?g + ucast c" by (rule GetId_Cons [OF c])
  have i4: "i < 4" and len: "length cs \<le> 3" and i5: "i < length buf"
    using Cons.prems by simp_all
  have nz: "push_bit 8 ?g + (ucast c :: 32 word) \<noteq> 0" by (rule byte_nonzero [OF c0])
  have hp: "drop_bit 8 (push_bit 8 ?g + (ucast c :: 32 word)) = ?g"
    by (simp only: high_part GetId_take_bit [OF cs len])
  have step: "GetStr_loop i (GetId (Some (c # cs))) buf = GetStr_loop (i + 1) ?g (buf[i := c])"
    unfolding e
    by (subst GetStr_loop.simps) (simp only: i4 nz hp low_byte, simp)
  have ih: "GetStr_loop (i + 1) ?g (buf[i := c])
      = (i + 1 + length cs, take (i + 1) (buf[i := c]) @ cs @ drop (i + 1 + length cs) (buf[i := c]))"
    using Cons.IH [OF cs, of "i + 1" "buf[i := c]"] Cons.prems by simp
  have t: "take (i + 1) (buf[i := c]) = take i buf @ [c]"
    using i5 by (simp add: take_Suc_conv_app_nth)
  have d: "drop (i + 1 + length cs) (buf[i := c]) = drop (i + 1 + length cs) buf"
    by simp
  show ?case
    unfolding step ih t d by simp
qed

lemma c_str_GetStr_GetId:
  assumes "ascii_name name" "length name \<le> 4" "length buf = 5"
  shows "c_str (GetStr (GetId (Some name)) buf) = name"
proof -
  have l: "GetStr_loop 0 (GetId (Some name)) buf = (length name, name @ drop (length name) buf)"
    using GetStr_loop_GetId [OF assms(1), of 0 buf] assms(2,3) by simp
  have nn: "\<forall>c \<in> set name. c \<noteq> 0"
    using assms(1) by (simp add: ascii_name_def list_all_iff)
  obtain z zs where dz: "drop (length name) buf = z # zs"
    using assms(2,3) by (cases "drop (length name) buf") simp_all
  have "GetStr (GetId (Some name)) buf = name @ 0 # zs"
    unfolding GetStr_def l by (simp add: dz list_update_append)
  then show ?thesis
    using nn by (simp add: c_str_def takeWhile_tail)
qed


lemma c_str_GetStr_zero: "length buf = 5 \<Longrightarrow> c_str (GetStr 0 buf) = []"
proof -
  assume "length buf = 5"
  then obtain z zs where b: "buf = z # zs" by (cases buf) simp_all
  have "GetStr_loop 0 0 buf = (0, buf)" by (subst GetStr_loop.simps) simp
  then show ?thesis by (simp add: GetStr_def c_str_def b)
qed

text \<open>
  C3. For every name of 1 to 4 ASCII characters, and whatever the five-byte buffer held
  before, the string \<open>GetStr\<close> leaves for the identifier of the name is the name; two such
  names with the same identifier are the same name; the empty name has the identifier 0;
  and the string \<open>GetStr\<close> leaves for 0 is empty.
\<close>

theorem GetStr_GetId_roundtrip:
  "(ascii_name name \<and> 1 \<le> length name \<and> length name \<le> 4 \<and> length buf = 5
      \<longrightarrow> c_str (GetStr (GetId (Some name)) buf) = name)
   \<and> (ascii_name name \<and> 1 \<le> length name \<and> length name \<le> 4
       \<and> ascii_name name' \<and> 1 \<le> length name' \<and> length name' \<le> 4
       \<and> GetId (Some name) = GetId (Some name') \<longrightarrow> name = name')
   \<and> GetId (Some []) = 0
   \<and> (length buf = 5 \<longrightarrow> c_str (GetStr 0 buf) = [])"
proof (intro conjI impI)
  assume "ascii_name name \<and> 1 \<le> length name \<and> length name \<le> 4 \<and> length buf = 5"
  then show "c_str (GetStr (GetId (Some name)) buf) = name"
    by (simp add: c_str_GetStr_GetId)
next
  assume a: "ascii_name name \<and> 1 \<le> length name \<and> length name \<le> 4
       \<and> ascii_name name' \<and> 1 \<le> length name' \<and> length name' \<le> 4
       \<and> GetId (Some name) = GetId (Some name')"
  let ?b = "replicate 5 (0 :: cchar)"
  have r: "c_str (GetStr (GetId (Some name)) ?b) = name"
    using a c_str_GetStr_GetId [of name ?b] by simp
  have r': "c_str (GetStr (GetId (Some name')) ?b) = name'"
    using a c_str_GetStr_GetId [of name' ?b] by simp
  have e: "GetId (Some name) = GetId (Some name')"
    using a by (elim conjE)
  have r1: "c_str (GetStr (GetId (Some name')) ?b) = name"
    using r by (simp only: e)
  show "name = name'"
    by (rule trans [OF sym [OF r1] r'])
next
  show "GetId (Some []) = 0" by simp
next
  assume "length buf = 5"
  then show "c_str (GetStr 0 buf) = []" by (rule c_str_GetStr_zero)
qed

text \<open>
  The name \<open>abcd\<close> (bytes 0x61 to 0x64) and a buffer that held \<open>zzzzz\<close>: the identifier is
  0x64636261 and decodes to \<open>abcd\<close>.
\<close>

theorem GetStr_GetId_roundtrip_witness:
  "c_str (GetStr (GetId (Some [0x61, 0x62, 0x63, 0x64])) [0x7A, 0x7A, 0x7A, 0x7A, 0x7A])
     = [0x61, 0x62, 0x63, 0x64]
   \<and> GetId (Some [0x61, 0x62, 0x63, 0x64]) = 0x64636261
   \<and> c_str (GetStr 0 [0x7A, 0x7A, 0x7A, 0x7A, 0x7A]) = []"
  using GetStr_GetId_roundtrip
    [of "[0x61, 0x62, 0x63, 0x64]" "[0x7A, 0x7A, 0x7A, 0x7A, 0x7A]" "[0x61, 0x62, 0x63, 0x64]"]
  by (simp add: ascii_name_def)

subsection \<open>Names of more than four characters\<close>

lemma GetId_append:
  "ascii_name xs \<Longrightarrow>
   GetId (Some (xs @ ys)) = GetId (Some xs) + push_bit (8 * length xs) (GetId (Some ys))"
proof (induction xs)
  case Nil
  then show ?case by simp
next
  case (Cons c cs)
  from Cons.prems have c: "c < 0x80" and cs: "ascii_name cs"
    by (simp_all add: ascii_name_Cons)
  have "GetId (Some ((c # cs) @ ys)) = push_bit 8 (GetId (Some (cs @ ys))) + ucast c"
    using GetId_Cons [OF c, of "cs @ ys"] by simp
  also have "\<dots> = push_bit 8 (GetId (Some cs) + push_bit (8 * length cs) (GetId (Some ys))) + ucast c"
    by (simp only: Cons.IH [OF cs])
  also have "\<dots> = (push_bit 8 (GetId (Some cs)) + ucast c)
      + push_bit (8 * length (c # cs)) (GetId (Some ys))"
    by (simp add: push_bit_add push_bit_push_bit add.commute)
  finally show ?case by (simp only: GetId_Cons [OF c])
qed

lemma ascii_name_take: "ascii_name name \<Longrightarrow> ascii_name (take k name)"
  by (auto simp add: ascii_name_def list_all_iff dest: in_set_takeD)

lemma GetId_first_four:
  assumes "ascii_name name"
  shows "GetId (Some name) = GetId (Some (take 4 name))"
proof (cases "length name \<le> 4")
  case True
  then show ?thesis by simp
next
  case False
  then have l: "length (take 4 name) = 4" by simp
  have "GetId (Some (take 4 name @ drop 4 name))
      = GetId (Some (take 4 name)) + push_bit (8 * length (take 4 name)) (GetId (Some (drop 4 name)))"
    by (rule GetId_append [OF ascii_name_take [OF assms]])
  then show ?thesis
    by (simp only: append_take_drop_id l) (simp add: push_bit_32_word)
qed

text \<open>
  C10. For every ASCII name of more than four characters, the identifier is that of the
  name's first four characters, and there is another ASCII name of more than four characters
  with the same identifier.
\<close>

theorem GetId_long_names_collide:
  assumes "ascii_name name" "4 < length name"
  shows "GetId (Some name) = GetId (Some (take 4 name))
    \<and> (\<exists>other. other \<noteq> name \<and> ascii_name other \<and> 4 < length other
          \<and> GetId (Some other) = GetId (Some name))"
proof
  show f: "GetId (Some name) = GetId (Some (take 4 name))"
    by (rule GetId_first_four [OF assms(1)])
  let ?o = "name @ [0x41]"
  have a: "ascii_name ?o" using assms(1) by (simp add: ascii_name_def)
  have "take 4 ?o = take 4 name" using assms(2) by simp
  then have "GetId (Some ?o) = GetId (Some name)"
    using GetId_first_four [OF a] f by simp
  moreover have "?o \<noteq> name" by simp
  moreover have "4 < length ?o" using assms(2) by simp
  ultimately show "\<exists>other. other \<noteq> name \<and> ascii_name other \<and> 4 < length other
          \<and> GetId (Some other) = GetId (Some name)"
    using a by blast
qed

theorem GetId_long_names_collide_witness:
  "GetId (Some [0x61, 0x62, 0x63, 0x64, 0x65]) = GetId (Some [0x61, 0x62, 0x63, 0x64])
   \<and> GetId (Some [0x61, 0x62, 0x63, 0x64, 0x65]) = 0x64636261"
  using GetId_long_names_collide [of "[0x61, 0x62, 0x63, 0x64, 0x65]"]
  by (simp add: ascii_name_def)

end
